theory Spec2Isabelle
  imports Complex_Main "HOL-Library.AList"
begin

section \<open>JavaScript values reaching the tool\<close>

text \<open>
  The method \<^verbatim>\<open>processGameThought(input: unknown)\<close> receives whatever the transport
  hands over: the \<^verbatim>\<open>arguments\<close> member of a tool call, which is a parsed JSON value,
  or \<^verbatim>\<open>undefined\<close> when the caller left it out. A number is an IEEE double; the
  model keeps its exact rational value (the two zeros are one value, as they are for
  negation, comparison and \<^verbatim>\<open>JSON.stringify\<close>) next to the three special values.
  An object is the list of its own properties.
\<close>

datatype js_number = NaN | Num rat | PosInfinity | NegInfinity

datatype js_value =
    JUndefined
  | JNull
  | JBool bool
  | JNumber js_number
  | JString string
  | JArray "js_value list"
  | JObject "(string \<times> js_value) list"

text \<open>
  What the source throws is \<^verbatim>\<open>new Error(message)\<close>; what the engine throws while the
  source runs is a \<^verbatim>\<open>TypeError\<close>, whose message text belongs to the engine, so the
  model keeps its cause instead.
\<close>

datatype type_error_cause = ReadPropertyOfNullish | NotAFunction | NoPrimitiveValue

datatype js_error = Error string | TypeError type_error_cause

fun typeof :: "js_value \<Rightarrow> string" where
  "typeof JUndefined = ''undefined''"
| "typeof JNull = ''object''"
| "typeof (JBool b) = ''boolean''"
| "typeof (JNumber n) = ''number''"
| "typeof (JString s) = ''string''"
| "typeof (JArray xs) = ''object''"
| "typeof (JObject kvs) = ''object''"

text \<open>Truthiness, as \<^verbatim>\<open>!x\<close>, \<^verbatim>\<open>&&\<close> and \<^verbatim>\<open>if (x)\<close> see it.\<close>

fun truthy :: "js_value \<Rightarrow> bool" where
  "truthy JUndefined = False"
| "truthy JNull = False"
| "truthy (JBool b) = b"
| "truthy (JNumber n) = (n \<noteq> NaN \<and> n \<noteq> Num 0)"
| "truthy (JString s) = (s \<noteq> [])"
| "truthy (JArray xs) = True"
| "truthy (JObject kvs) = True"

text \<open>The comparison \<^verbatim>\<open>a > b\<close> of two numbers; with \<^verbatim>\<open>NaN\<close> on a side it is false.\<close>

fun js_gt :: "js_number \<Rightarrow> js_number \<Rightarrow> bool" where
  "js_gt NaN b = False"
| "js_gt a NaN = False"
| "js_gt (Num a) (Num b) = (b < a)"
| "js_gt (Num a) PosInfinity = False"
| "js_gt (Num a) NegInfinity = True"
| "js_gt PosInfinity PosInfinity = False"
| "js_gt PosInfinity b = True"
| "js_gt NegInfinity b = False"

definition js_ge :: "js_number \<Rightarrow> js_number \<Rightarrow> bool" where
  "js_ge a b = (a \<noteq> NaN \<and> b \<noteq> NaN \<and> \<not> js_gt b a)"

definition js_le :: "js_number \<Rightarrow> js_number \<Rightarrow> bool" where
  "js_le a b = js_ge b a"

text \<open>
  The property read \<^verbatim>\<open>data.name\<close> on a value that is neither \<^verbatim>\<open>null\<close> nor
  \<^verbatim>\<open>undefined\<close> (on those two it throws, see \<open>validateGameThoughtData\<close>). The nine
  names the source reads are on no built-in prototype, so an object without the own
  property, an array and a primitive all give \<^verbatim>\<open>undefined\<close>.
\<close>

fun get :: "js_value \<Rightarrow> string \<Rightarrow> js_value" where
  "get (JObject kvs) k = (case map_of kvs k of Some v \<Rightarrow> v | None \<Rightarrow> JUndefined)"
| "get v k = JUndefined"

text \<open>
  The string, number or boolean behind a value whose \<^verbatim>\<open>typeof\<close> was checked; the second
  equation of each is never reached after the check.
\<close>

fun as_string :: "js_value \<Rightarrow> string" where
  "as_string (JString s) = s"
| "as_string v = []"

fun as_number :: "js_value \<Rightarrow> js_number" where
  "as_number (JNumber n) = n"
| "as_number v = NaN"

fun as_boolean :: "js_value \<Rightarrow> bool" where
  "as_boolean (JBool b) = b"
| "as_boolean v = False"

subsection \<open>Conversion to a string\<close>

text \<open>
  \<^verbatim>\<open>ToString\<close>, which a template literal and a computed property key apply. The decimal
  text of a finite number is the shortest one that reads back as the same double; it is
  the parameter \<open>nts\<close> of the model. An object from JSON has no callable own property:
  one that has an own \<^verbatim>\<open>toString\<close> hides \<^verbatim>\<open>Object.prototype.toString\<close>, the inherited
  \<^verbatim>\<open>valueOf\<close> returns the object itself, and the conversion throws. An array is joined
  with commas, \<^verbatim>\<open>null\<close> and \<^verbatim>\<open>undefined\<close> elements giving the empty string.
\<close>

fun number_to_string :: "(rat \<Rightarrow> string) \<Rightarrow> js_number \<Rightarrow> string" where
  "number_to_string nts NaN = ''NaN''"
| "number_to_string nts (Num r) = nts r"
| "number_to_string nts PosInfinity = ''Infinity''"
| "number_to_string nts NegInfinity = ''-Infinity''"

fun to_string :: "(rat \<Rightarrow> string) \<Rightarrow> js_value \<Rightarrow> js_error + string"
  and join :: "(rat \<Rightarrow> string) \<Rightarrow> js_value list \<Rightarrow> js_error + string" where
  "to_string nts JUndefined = Inr ''undefined''"
| "to_string nts JNull = Inr ''null''"
| "to_string nts (JBool b) = Inr (if b then ''true'' else ''false'')"
| "to_string nts (JNumber n) = Inr (number_to_string nts n)"
| "to_string nts (JString s) = Inr s"
| "to_string nts (JArray xs) = join nts xs"
| "to_string nts (JObject kvs) =
     (if ''toString'' \<in> set (map fst kvs) then Inl (TypeError NoPrimitiveValue)
      else Inr ''[object Object]'')"
| "join nts [] = Inr []"
| "join nts (x # xs) =
     (case (if x = JUndefined \<or> x = JNull then Inr [] else to_string nts x) of
        Inl e \<Rightarrow> Inl e
      | Inr a \<Rightarrow>
          (if xs = [] then Inr a
           else (case join nts xs of Inl e \<Rightarrow> Inl e | Inr b \<Rightarrow> Inr (a @ '','' @ b))))"

definition to_property_key :: "(rat \<Rightarrow> string) \<Rightarrow> js_value \<Rightarrow> js_error + string" where
  "to_property_key nts v = to_string nts v"

text \<open>
  The branch index is the object literal \<^verbatim>\<open>{}\<close>, so a read of a key it does not own
  falls through to \<^verbatim>\<open>Object.prototype\<close>. These are the names found there; each holds
  a function, or for \<^verbatim>\<open>__proto__\<close> the prototype object: truthy, and without a
  \<^verbatim>\<open>push\<close> method.
\<close>

definition object_prototype_keys :: "string list" where
  "object_prototype_keys =
     [''constructor'', ''__defineGetter__'', ''__defineSetter__'', ''hasOwnProperty'',
      ''__lookupGetter__'', ''__lookupSetter__'', ''isPrototypeOf'',
      ''propertyIsEnumerable'', ''toString'', ''valueOf'', ''__proto__'',
      ''toLocaleString'']"

subsection \<open>What \<^verbatim>\<open>JSON.stringify\<close> and \<^verbatim>\<open>Object.keys\<close> do to the reply\<close>

text \<open>
  \<^verbatim>\<open>JSON.stringify\<close> prints a finite number as it is and a number that is not finite
  (\<^verbatim>\<open>Infinity\<close>, which \<^verbatim>\<open>JSON.parse\<close> gives for a text such as \<^verbatim>\<open>1e999\<close>) as
  \<^verbatim>\<open>null\<close>.
\<close>

fun json_number :: "js_number \<Rightarrow> js_value" where
  "json_number (Num r) = JNumber (Num r)"
| "json_number n = JNull"

text \<open>
  \<^verbatim>\<open>Object.keys\<close> lists the own keys that are array indices first, in ascending order,
  and the other keys after them in the order of their creation. An array index is the
  decimal text, without a leading zero, of an integer below \<open>2^32 - 1\<close>.
\<close>

definition digit_value :: "char \<Rightarrow> nat option" where
  "digit_value c =
     map_of [(CHR ''0'', 0), (CHR ''1'', 1), (CHR ''2'', 2), (CHR ''3'', 3), (CHR ''4'', 4),
             (CHR ''5'', 5), (CHR ''6'', 6), (CHR ''7'', 7), (CHR ''8'', 8), (CHR ''9'', 9)] c"

fun numeral_value :: "string \<Rightarrow> nat \<Rightarrow> nat option" where
  "numeral_value [] n = Some n"
| "numeral_value (c # cs) n =
     (case digit_value c of None \<Rightarrow> None | Some d \<Rightarrow> numeral_value cs (10 * n + d))"

definition array_index :: "string \<Rightarrow> nat option" where
  "array_index k =
     (if k = [] \<or> (hd k = CHR ''0'' \<and> tl k \<noteq> []) then None
      else case numeral_value k 0 of
             None \<Rightarrow> None
           | Some n \<Rightarrow> if n < 2 ^ 32 - 1 then Some n else None)"

definition own_keys_order :: "string list \<Rightarrow> string list" where
  "own_keys_order ks =
     sort_key (\<lambda>k. the (array_index k)) (filter (\<lambda>k. array_index k \<noteq> None) ks)
     @ filter (\<lambda>k. array_index k = None) ks"

section \<open>The server\<close>

text \<open>
  The class \<^verbatim>\<open>GameThinkingServer\<close> of \<^verbatim>\<open>src/index.js\<close>; the unnamed source file has
  the same three methods without the type annotations.

  \<^verbatim>\<open>interface GameThoughtData\<close>. The four required members have the type the
  validator checked; the optional ones are stored as they came, the casts of the source
  checking nothing at run time.
\<close>

record GameThoughtData =
  thought :: string
  thoughtNumber :: js_number
  totalThoughts :: js_number
  nextThoughtNeeded :: bool
  isRevision :: js_value
  revisesThought :: js_value
  branchFromThought :: js_value
  branchId :: js_value
  needsMoreThoughts :: js_value

text \<open>
  The two private members of \<^verbatim>\<open>class GameThinkingServer\<close>. \<open>branches\<close> lists the own
  properties of the object in the order of their creation.
\<close>

record GameThinkingServer =
  thoughtHistory :: "GameThoughtData list"
  branches :: "(string \<times> GameThoughtData list) list"

definition new_server :: GameThinkingServer where
  "new_server = \<lparr>thoughtHistory = [], branches = []\<rparr>"

text \<open>
  The JSON document that the returned text spells, member by member in the order of the
  text: the five members of the success branch, or \<^verbatim>\<open>error\<close> and \<^verbatim>\<open>status\<close> of the
  catch branch. The two numbers are as \<^verbatim>\<open>JSON.stringify\<close> prints them, so \<^verbatim>\<open>null\<close>
  where the number is not finite; \<open>reply_branches\<close> is \<^verbatim>\<open>Object.keys(this.branches)\<close>
  in the engine's order. \<open>reply_error\<close> stands for \<^verbatim>\<open>error.message\<close>: the text given to
  \<^verbatim>\<open>new Error\<close>, or the engine's text of a \<^verbatim>\<open>TypeError\<close>. The layout of the text (two
  spaces of indentation, the quoting of strings) is not modelled.
\<close>

datatype payload =
    Summary (reply_thoughtNumber: js_value) (reply_totalThoughts: js_value)
      (reply_nextThoughtNeeded: bool) (reply_branches: "string list")
      (reply_thoughtHistoryLength: nat)
  | Failed (reply_error: js_error) (reply_status: string)

record content_entry =
  entry_type :: string
  entry_text :: payload

record tool_response =
  content :: "content_entry list"
  isError :: "bool option"

subsection \<open>\<^verbatim>\<open>validateGameThoughtData\<close>\<close>

text \<open>
  On \<^verbatim>\<open>null\<close> and \<^verbatim>\<open>undefined\<close> the first read, \<^verbatim>\<open>data.thought\<close>, throws the engine's
  \<^verbatim>\<open>TypeError\<close>; on every other value the four checks run in the order of the source and
  the first that holds throws its message.
\<close>

definition validateGameThoughtData :: "js_value \<Rightarrow> js_error + GameThoughtData" where
  "validateGameThoughtData input =
     (if input = JUndefined \<or> input = JNull then Inl (TypeError ReadPropertyOfNullish)
      else let data = get input in
        if \<not> truthy (data ''thought'') \<or> typeof (data ''thought'') \<noteq> ''string''
        then Inl (Error ''Invalid thought: must be a string'')
        else if \<not> truthy (data ''thoughtNumber'')
                \<or> typeof (data ''thoughtNumber'') \<noteq> ''number''
        then Inl (Error ''Invalid thoughtNumber: must be a number'')
        else if \<not> truthy (data ''totalThoughts'')
                \<or> typeof (data ''totalThoughts'') \<noteq> ''number''
        then Inl (Error ''Invalid totalThoughts: must be a number'')
        else if typeof (data ''nextThoughtNeeded'') \<noteq> ''boolean''
        then Inl (Error ''Invalid nextThoughtNeeded: must be a boolean'')
        else Inr \<lparr>thought = as_string (data ''thought''),
                  thoughtNumber = as_number (data ''thoughtNumber''),
                  totalThoughts = as_number (data ''totalThoughts''),
                  nextThoughtNeeded = as_boolean (data ''nextThoughtNeeded''),
                  isRevision = data ''isRevision'',
                  revisesThought = data ''revisesThought'',
                  branchFromThought = data ''branchFromThought'',
                  branchId = data ''branchId'',
                  needsMoreThoughts = data ''needsMoreThoughts''\<rparr>)"

subsection \<open>\<^verbatim>\<open>formatGameThought\<close>\<close>

text \<open>
  The block goes to \<^verbatim>\<open>console.error\<close> only. The model computes the header behind
  the coloured prefix, \<^verbatim>\<open>thoughtNumber/totalThoughts\<close> and the context, and with it the
  exception a template literal raises on a value without a string form; the frame, the
  emoji and the colour codes are left out, and writing the block is taken to succeed.
\<close>

definition formatGameThought :: "(rat \<Rightarrow> string) \<Rightarrow> GameThoughtData \<Rightarrow> js_error + string" where
  "formatGameThought nts thoughtData =
     (case
        (if truthy (isRevision thoughtData) then
           (case to_string nts (revisesThought thoughtData) of
              Inl e \<Rightarrow> Inl e
            | Inr r \<Rightarrow> Inr ('' (adjusting thought '' @ r @ '')''))
         else if truthy (branchFromThought thoughtData) then
           (case to_string nts (branchFromThought thoughtData) of
              Inl e \<Rightarrow> Inl e
            | Inr f \<Rightarrow>
                (case to_string nts (branchId thoughtData) of
                   Inl e \<Rightarrow> Inl e
                 | Inr b \<Rightarrow> Inr ('' (from thought '' @ f @ '', ID: '' @ b @ '')'')))
         else Inr [])
      of
        Inl e \<Rightarrow> Inl e
      | Inr context \<Rightarrow>
          Inr (number_to_string nts (thoughtNumber thoughtData) @ ''/''
               @ number_to_string nts (totalThoughts thoughtData) @ context))"

subsection \<open>\<^verbatim>\<open>processGameThought\<close>\<close>

text \<open>
  Lines 95 to 100: the record joins its branch. The result says whether the statement
  threw, and the server is as the statement left it.
\<close>

definition record_branch ::
  "(rat \<Rightarrow> string) \<Rightarrow> GameThinkingServer \<Rightarrow> GameThoughtData
     \<Rightarrow> js_error option \<times> GameThinkingServer" where
  "record_branch nts s validatedInput =
     (if truthy (branchFromThought validatedInput) \<and> truthy (branchId validatedInput) then
        (case to_property_key nts (branchId validatedInput) of
           Inl e \<Rightarrow> (Some e, s)
         | Inr k \<Rightarrow>
             (case map_of (branches s) k of
                Some rs \<Rightarrow>
                  (None, s\<lparr>branches := AList.update k (rs @ [validatedInput]) (branches s)\<rparr>)
              | None \<Rightarrow>
                  if k \<in> set object_prototype_keys then (Some (TypeError NotAFunction), s)
                  else (None, s\<lparr>branches := AList.update k [validatedInput] (branches s)\<rparr>)))
      else (None, s))"

definition success_response :: "GameThinkingServer \<Rightarrow> GameThoughtData \<Rightarrow> tool_response" where
  "success_response s validatedInput =
     \<lparr>content =
        [\<lparr>entry_type = ''text'',
          entry_text =
            Summary (json_number (thoughtNumber validatedInput))
              (json_number (totalThoughts validatedInput))
              (nextThoughtNeeded validatedInput) (own_keys_order (map fst (branches s)))
              (length (thoughtHistory s))\<rparr>],
      isError = None\<rparr>"

text \<open>
  Lines 89 to 91: a total below the thought's own number is raised to it, on the record
  itself and before it is stored anywhere.
\<close>

definition bump_totalThoughts :: "GameThoughtData \<Rightarrow> GameThoughtData" where
  "bump_totalThoughts v =
     (if js_gt (thoughtNumber v) (totalThoughts v)
      then v\<lparr>totalThoughts := thoughtNumber v\<rparr> else v)"

text \<open>The body of the \<^verbatim>\<open>try\<close>: what it returns or throws, and the server it leaves.\<close>

definition try_block ::
  "(rat \<Rightarrow> string) \<Rightarrow> GameThinkingServer \<Rightarrow> js_value
     \<Rightarrow> (js_error + tool_response) \<times> GameThinkingServer" where
  "try_block nts s input =
     (case validateGameThoughtData input of
        Inl e \<Rightarrow> (Inl e, s)
      | Inr v \<Rightarrow>
          let validatedInput = bump_totalThoughts v;
              s1 = s\<lparr>thoughtHistory := thoughtHistory s @ [validatedInput]\<rparr>
          in (case record_branch nts s1 validatedInput of
                (Some e, s2) \<Rightarrow> (Inl e, s2)
              | (None, s2) \<Rightarrow>
                  (case formatGameThought nts validatedInput of
                     Inl e \<Rightarrow> (Inl e, s2)
                   | Inr formattedThought \<Rightarrow>
                       (Inr (success_response s2 validatedInput), s2))))"

text \<open>The \<^verbatim>\<open>catch\<close>: every value thrown here is an \<^verbatim>\<open>Error\<close> instance.\<close>

definition catch_block :: "js_error \<Rightarrow> tool_response" where
  "catch_block error =
     \<lparr>content = [\<lparr>entry_type = ''text'', entry_text = Failed error ''failed''\<rparr>],
      isError = Some True\<rparr>"

definition processGameThought ::
  "(rat \<Rightarrow> string) \<Rightarrow> GameThinkingServer \<Rightarrow> js_value
     \<Rightarrow> tool_response \<times> GameThinkingServer" where
  "processGameThought nts s input =
     (case try_block nts s input of
        (Inl error, s') \<Rightarrow> (catch_block error, s')
      | (Inr response, s') \<Rightarrow> (response, s'))"

text \<open>A sequence of calls, from the first to the last: the responses and the server.\<close>

primrec run ::
  "(rat \<Rightarrow> string) \<Rightarrow> GameThinkingServer \<Rightarrow> js_value list \<Rightarrow> GameThinkingServer" where
  "run nts s [] = s"
| "run nts s (input # inputs) = run nts (snd (processGameThought nts s input)) inputs"

primrec responses ::
  "(rat \<Rightarrow> string) \<Rightarrow> GameThinkingServer \<Rightarrow> js_value list \<Rightarrow> tool_response list" where
  "responses nts s [] = []"
| "responses nts s (input # inputs) =
     fst (processGameThought nts s input)
       # responses nts (snd (processGameThought nts s input)) inputs"

text \<open>
  \<^verbatim>\<open>Number::toString\<close> on the integers below \<open>10^21\<close>, where it prints the decimal
  digits: the instance of \<open>nts\<close> in the worked examples.
\<close>

fun decimal_nat :: "nat \<Rightarrow> string" where
  "decimal_nat n =
     (if n < 10 then [''0123456789'' ! n]
      else decimal_nat (n div 10) @ [''0123456789'' ! (n mod 10)])"

declare decimal_nat.simps [simp del]

definition decimal :: "rat \<Rightarrow> string" where
  "decimal r = (if r < 0 then ''-'' else []) @ decimal_nat (nat \<lfloor>\<bar>r\<bar>\<rfloor>)"

section \<open>The vocabulary of the properties\<close>

text \<open>
  The four checks of \<^verbatim>\<open>validateGameThoughtData\<close>, in the order of its statements,
  each with the member it reads, the \<^verbatim>\<open>typeof\<close> it asks for and the message it throws.
\<close>

datatype required_field = Thought | ThoughtNumber | TotalThoughts | NextThoughtNeeded

definition required_fields :: "required_field list" where
  "required_fields = [Thought, ThoughtNumber, TotalThoughts, NextThoughtNeeded]"

fun field_name :: "required_field \<Rightarrow> string" where
  "field_name Thought = ''thought''"
| "field_name ThoughtNumber = ''thoughtNumber''"
| "field_name TotalThoughts = ''totalThoughts''"
| "field_name NextThoughtNeeded = ''nextThoughtNeeded''"

fun expected_type :: "required_field \<Rightarrow> string" where
  "expected_type Thought = ''string''"
| "expected_type ThoughtNumber = ''number''"
| "expected_type TotalThoughts = ''number''"
| "expected_type NextThoughtNeeded = ''boolean''"

fun invalid_message :: "required_field \<Rightarrow> string" where
  "invalid_message Thought = ''Invalid thought: must be a string''"
| "invalid_message ThoughtNumber = ''Invalid thoughtNumber: must be a number''"
| "invalid_message TotalThoughts = ''Invalid totalThoughts: must be a number''"
| "invalid_message NextThoughtNeeded = ''Invalid nextThoughtNeeded: must be a boolean''"

text \<open>
  A required member is missing or of another type: there is nothing to read it from, or
  what is read (\<^verbatim>\<open>undefined\<close> for a member that is not there) has another
  \<^verbatim>\<open>typeof\<close>.
\<close>

definition missing_or_ill_typed :: "js_value \<Rightarrow> required_field \<Rightarrow> bool" where
  "missing_or_ill_typed input f =
     (input = JUndefined \<or> input = JNull
      \<or> typeof (get input (field_name f)) \<noteq> expected_type f)"

text \<open>
  The condition of one \<^verbatim>\<open>if\<close> of the validator, taken alone, on an input whose members
  can be read: the first three also ask for a truthy value, the last does not.
\<close>

fun rejects :: "js_value \<Rightarrow> required_field \<Rightarrow> bool" where
  "rejects input NextThoughtNeeded = (typeof (get input ''nextThoughtNeeded'') \<noteq> ''boolean'')"
| "rejects input f =
     (\<not> truthy (get input (field_name f)) \<or> typeof (get input (field_name f)) \<noteq> expected_type f)"

text \<open>The record a call stores, if it stores one: the validated input, its total raised.\<close>

definition stored_record :: "js_value \<Rightarrow> GameThoughtData option" where
  "stored_record input =
     (case validateGameThoughtData input of
        Inl e \<Rightarrow> None
      | Inr v \<Rightarrow> Some (bump_totalThoughts v))"

text \<open>
  A record names the branch \<open>b\<close>: both members are truthy and the key the branch
  identifier turns into is \<open>b\<close>.
\<close>

definition names_branch :: "(rat \<Rightarrow> string) \<Rightarrow> string \<Rightarrow> GameThoughtData \<Rightarrow> bool" where
  "names_branch nts b r =
     (truthy (branchFromThought r) \<and> truthy (branchId r)
      \<and> to_property_key nts (branchId r) = Inr b)"

text \<open>
  What the statements after the push to the history throw, if any does: the branch
  step of lines 95 to 100, then the formatter. The branch step reads the index only.
\<close>

definition later_throw ::
  "(rat \<Rightarrow> string) \<Rightarrow> GameThinkingServer \<Rightarrow> GameThoughtData \<Rightarrow> js_error option" where
  "later_throw nts s r =
     (case fst (record_branch nts s r) of
        Some e \<Rightarrow> Some e
      | None \<Rightarrow> (case formatGameThought nts r of Inl e \<Rightarrow> Some e | Inr t \<Rightarrow> None))"

text \<open>
  The optional members the formatter prints have the types the interface declares for
  them, where they are present.
\<close>

definition declared_types :: "GameThoughtData \<Rightarrow> bool" where
  "declared_types r =
     (typeof (revisesThought r) \<in> {''undefined'', ''number''}
      \<and> typeof (branchFromThought r) \<in> {''undefined'', ''number''}
      \<and> typeof (branchId r) \<in> {''undefined'', ''string''})"

text \<open>The sequence of a branch; a branch the index does not own has none.\<close>

definition branch_seq :: "GameThinkingServer \<Rightarrow> string \<Rightarrow> GameThoughtData list" where
  "branch_seq s b = (case map_of (branches s) b of Some rs \<Rightarrow> rs | None \<Rightarrow> [])"

text \<open>The payload of a response: the object its single text entry prints.\<close>

definition payload_of :: "tool_response \<Rightarrow> payload" where
  "payload_of r = entry_text (hd (content r))"

text \<open>Two properties of a server that every call keeps.\<close>

definition nonempty_branches :: "GameThinkingServer \<Rightarrow> bool" where
  "nonempty_branches s = (\<forall>b rs. map_of (branches s) b = Some rs \<longrightarrow> rs \<noteq> [])"

definition branches_in_history :: "GameThinkingServer \<Rightarrow> bool" where
  "branches_in_history s =
     (\<forall>b rs. map_of (branches s) b = Some rs \<longrightarrow> set rs \<subseteq> set (thoughtHistory s))"

section \<open>Inputs of the worked examples\<close>

definition thought_input :: "string \<Rightarrow> rat \<Rightarrow> rat \<Rightarrow> (string \<times> js_value) list" where
  "thought_input t n m =
     [(''thought'', JString t), (''thoughtNumber'', JNumber (Num n)),
      (''totalThoughts'', JNumber (Num m)), (''nextThoughtNeeded'', JBool True)]"

definition scenario_a :: js_value where
  "scenario_a = JObject (thought_input ''Add jump mechanic'' 1 3)"

definition scenario_b :: js_value where
  "scenario_b = JObject (thought_input ''Tune gravity'' 5 3)"

definition inherited_key_call :: js_value where
  "inherited_key_call =
     JObject (thought_input ''Alt control scheme'' 1 1
              @ [(''branchFromThought'', JNumber (Num 1)), (''branchId'', JString ''constructor'')])"

definition zero_branch_call :: js_value where
  "zero_branch_call =
     JObject (thought_input ''Alt control scheme'' 2 5
              @ [(''branchFromThought'', JNumber (Num 0)), (''branchId'', JString ''alt'')])"

definition zero_number_call :: js_value where
  "zero_number_call = JObject (thought_input ''Add jump mechanic'' 0 3)"

definition tagged_call :: "bool \<Rightarrow> js_value" where
  "tagged_call b =
     JObject (thought_input ''Add jump mechanic'' 1 3 @ [(''needsMoreThoughts'', JBool b)])"

definition infinite_call :: js_value where
  "infinite_call =
     JObject [(''thought'', JString ''Tune gravity''), (''thoughtNumber'', JNumber PosInfinity),
              (''totalThoughts'', JNumber (Num 3)), (''nextThoughtNeeded'', JBool True)]"

definition unprintable_branch_call :: js_value where
  "unprintable_branch_call =
     JObject (thought_input ''Alt control scheme'' 1 1
              @ [(''branchFromThought'', JObject [(''toString'', JNumber (Num 1))]),
                 (''branchId'', JString ''alt'')])"

definition scenario_c :: js_value where
  "scenario_c =
     JObject (thought_input ''Alt control scheme'' 2 5
              @ [(''branchFromThought'', JNumber (Num 1)), (''branchId'', JString ''controls-alt'')])"

section \<open>Facts about the operations\<close>

lemmas eval_defs = processGameThought_def try_block_def validateGameThoughtData_def
  record_branch_def formatGameThought_def success_response_def catch_block_def new_server_def
  bump_totalThoughts_def thought_input_def to_property_key_def object_prototype_keys_def
  payload_of_def branch_seq_def own_keys_order_def array_index_def digit_value_def Let_def

lemma typeof_string_iff: "typeof v = ''string'' \<longleftrightarrow> (\<exists>s. v = JString s)"
  by (cases v) auto

lemma typeof_number_iff: "typeof v = ''number'' \<longleftrightarrow> (\<exists>n. v = JNumber n)"
  by (cases v) auto

lemma typeof_boolean_iff: "typeof v = ''boolean'' \<longleftrightarrow> (\<exists>b. v = JBool b)"
  by (cases v) auto

lemma validate_Inr:
  assumes "validateGameThoughtData input = Inr v"
  shows "input \<noteq> JUndefined" "input \<noteq> JNull"
    "get input ''thought'' = JString (thought v)" "thought v \<noteq> []"
    "get input ''thoughtNumber'' = JNumber (thoughtNumber v)"
    "thoughtNumber v \<noteq> NaN" "thoughtNumber v \<noteq> Num 0"
    "get input ''totalThoughts'' = JNumber (totalThoughts v)"
    "totalThoughts v \<noteq> NaN" "totalThoughts v \<noteq> Num 0"
    "get input ''nextThoughtNeeded'' = JBool (nextThoughtNeeded v)"
    "isRevision v = get input ''isRevision''"
    "revisesThought v = get input ''revisesThought''"
    "branchFromThought v = get input ''branchFromThought''"
    "branchId v = get input ''branchId''"
    "needsMoreThoughts v = get input ''needsMoreThoughts''"
  using assms
  by (auto simp: validateGameThoughtData_def Let_def typeof_string_iff typeof_number_iff
      typeof_boolean_iff split: if_splits)

lemma process_invalid:
  "validateGameThoughtData input = Inl e \<Longrightarrow> processGameThought nts s input = (catch_block e, s)"
  by (simp add: processGameThought_def try_block_def)

lemma process_valid_state:
  "validateGameThoughtData input = Inr v \<Longrightarrow>
   snd (processGameThought nts s input) =
     snd (record_branch nts (s\<lparr>thoughtHistory := thoughtHistory s @ [bump_totalThoughts v]\<rparr>)
            (bump_totalThoughts v))"
  by (simp add: processGameThought_def try_block_def Let_def split: prod.splits option.splits sum.splits)

lemma record_branch_history:
  "thoughtHistory (snd (record_branch nts s r)) = thoughtHistory s"
  by (simp add: record_branch_def split: sum.splits option.splits)

lemma process_history:
  "thoughtHistory (snd (processGameThought nts s input)) =
   thoughtHistory s @ (case stored_record input of None \<Rightarrow> [] | Some r \<Rightarrow> [r])"
proof (cases "validateGameThoughtData input")
  case (Inl e)
  then show ?thesis by (simp add: process_invalid stored_record_def)
next
  case (Inr v)
  then show ?thesis
    by (simp add: process_valid_state record_branch_history stored_record_def)
qed

lemma record_branch_seq:
  assumes "b \<notin> set object_prototype_keys"
  shows "branch_seq (snd (record_branch nts s r)) b =
         branch_seq s b @ (if names_branch nts b r then [r] else [])"
  using assms
  by (auto simp: record_branch_def branch_seq_def names_branch_def AList.update_conv'
      split: sum.splits option.splits)

lemma branch_seq_history_update [simp]:
  "branch_seq (s\<lparr>thoughtHistory := h\<rparr>) b = branch_seq s b"
  by (simp add: branch_seq_def)

lemma process_branch_seq:
  assumes "b \<notin> set object_prototype_keys"
  shows "branch_seq (snd (processGameThought nts s input)) b =
         branch_seq s b @ filter (names_branch nts b)
           (case stored_record input of None \<Rightarrow> [] | Some r \<Rightarrow> [r])"
proof (cases "validateGameThoughtData input")
  case (Inl e)
  then show ?thesis by (simp add: process_invalid stored_record_def)
next
  case (Inr v)
  then show ?thesis
    by (simp add: process_valid_state record_branch_seq [OF assms] stored_record_def)
qed

lemma run_history:
  "thoughtHistory (run nts s inputs) = thoughtHistory s @ List.map_filter stored_record inputs"
  by (induction inputs arbitrary: s)
     (simp_all add: List.map_filter_simps process_history split: option.splits)

lemma run_branch_seq:
  assumes "b \<notin> set object_prototype_keys"
  shows "branch_seq (run nts s inputs) b =
         branch_seq s b @ filter (names_branch nts b) (List.map_filter stored_record inputs)"
  by (induction inputs arbitrary: s)
     (simp_all add: List.map_filter_simps process_branch_seq [OF assms] split: option.splits)

lemma record_branch_nonempty:
  "nonempty_branches s \<Longrightarrow> nonempty_branches (snd (record_branch nts s r))"
  by (auto simp: nonempty_branches_def record_branch_def AList.update_conv'
      split: sum.splits option.splits if_splits)

lemma process_nonempty:
  "nonempty_branches s \<Longrightarrow> nonempty_branches (snd (processGameThought nts s input))"
proof (cases "validateGameThoughtData input")
  case (Inl e)
  then show "nonempty_branches s \<Longrightarrow> ?thesis" by (simp add: process_invalid)
next
  case (Inr v)
  assume "nonempty_branches s"
  then have "nonempty_branches (s\<lparr>thoughtHistory := thoughtHistory s @ [bump_totalThoughts v]\<rparr>)"
    by (simp add: nonempty_branches_def)
  then show ?thesis
    by (simp add: process_valid_state [OF Inr] record_branch_nonempty)
qed

lemma run_nonempty:
  "nonempty_branches s \<Longrightarrow> nonempty_branches (run nts s inputs)"
  by (induction inputs arbitrary: s) (simp_all add: process_nonempty)

lemma record_branch_in_history:
  "branches_in_history s \<Longrightarrow> r \<in> set (thoughtHistory s) \<Longrightarrow>
   branches_in_history (snd (record_branch nts s r))"
  by (auto simp: branches_in_history_def record_branch_def AList.update_conv'
      split: sum.splits option.splits if_splits)

lemma process_in_history:
  "branches_in_history s \<Longrightarrow> branches_in_history (snd (processGameThought nts s input))"
proof (cases "validateGameThoughtData input")
  case (Inl e)
  then show "branches_in_history s \<Longrightarrow> ?thesis" by (simp add: process_invalid)
next
  case (Inr v)
  assume "branches_in_history s"
  then have "branches_in_history (s\<lparr>thoughtHistory := thoughtHistory s @ [bump_totalThoughts v]\<rparr>)"
    by (auto simp: branches_in_history_def)
  then show ?thesis
    by (simp add: process_valid_state [OF Inr] record_branch_in_history)
qed

lemma run_in_history:
  "branches_in_history s \<Longrightarrow> branches_in_history (run nts s inputs)"
  by (induction inputs arbitrary: s) (simp_all add: process_in_history)

lemma js_gt_irrefl: "\<not> js_gt a a"
  by (cases a) auto

lemma js_le_iff_not_gt: "a \<noteq> NaN \<Longrightarrow> b \<noteq> NaN \<Longrightarrow> js_le a b \<longleftrightarrow> \<not> js_gt a b"
  by (simp add: js_le_def js_ge_def)

lemma bump_ge:
  assumes "thoughtNumber v \<noteq> NaN" "totalThoughts v \<noteq> NaN"
  shows "js_ge (totalThoughts (bump_totalThoughts v)) (thoughtNumber (bump_totalThoughts v))"
  using assms by (simp add: bump_totalThoughts_def js_ge_def js_gt_irrefl)

lemma stored_record_ge:
  "stored_record input = Some r \<Longrightarrow> js_ge (totalThoughts r) (thoughtNumber r)"
  by (auto simp: stored_record_def bump_ge validate_Inr split: sum.splits)

lemma run_history_ge:
  "r \<in> set (thoughtHistory (run nts new_server inputs)) \<Longrightarrow> js_ge (totalThoughts r) (thoughtNumber r)"
  by (auto simp: run_history new_server_def List.map_filter_def stored_record_ge)

lemma process_response:
  "(\<exists>e. fst (processGameThought nts s input) = catch_block e)
   \<or> (\<exists>v. validateGameThoughtData input = Inr v \<and> fst (processGameThought nts s input) =
         success_response (snd (processGameThought nts s input)) (bump_totalThoughts v))"
  by (auto simp: processGameThought_def try_block_def Let_def
      split: prod.splits option.splits sum.splits)

lemma process_shape:
  "(\<exists>e. processGameThought nts s input = (catch_block e, snd (processGameThought nts s input)))
   \<or> (\<exists>v. validateGameThoughtData input = Inr v \<and> processGameThought nts s input =
         (success_response (snd (processGameThought nts s input)) (bump_totalThoughts v),
          snd (processGameThought nts s input)))"
  using process_response [of nts s input] by (metis prod.collapse)

lemma validate_nullish:
  "input = JUndefined \<or> input = JNull \<Longrightarrow>
   validateGameThoughtData input = Inl (TypeError ReadPropertyOfNullish)"
  by (auto simp: validateGameThoughtData_def)

lemma find_rejects:
  "List.find (rejects input) required_fields =
     (if rejects input Thought then Some Thought
      else if rejects input ThoughtNumber then Some ThoughtNumber
      else if rejects input TotalThoughts then Some TotalThoughts
      else if rejects input NextThoughtNeeded then Some NextThoughtNeeded
      else None)"
  by (simp add: required_fields_def)

lemma validate_find:
  assumes "input \<noteq> JUndefined" "input \<noteq> JNull"
  shows "case List.find (rejects input) required_fields of
           Some g \<Rightarrow> validateGameThoughtData input = Inl (Error (invalid_message g))
         | None \<Rightarrow> (\<exists>v. validateGameThoughtData input = Inr v)"
  using assms
  by (simp add: find_rejects validateGameThoughtData_def Let_def)

lemma ill_typed_rejects:
  assumes "input \<noteq> JUndefined" "input \<noteq> JNull" "missing_or_ill_typed input f"
  shows "rejects input f"
  using assms by (cases f) (simp_all add: missing_or_ill_typed_def)

lemma find_first:
  assumes "List.find P xs = Some g" "P f" "f \<in> set xs"
    "\<forall>h \<in> set (takeWhile (\<lambda>h. h \<noteq> f) xs). \<not> P h"
  shows "g = f"
  using assms by (induction xs) (auto split: if_splits)

lemma required_fields_all: "f \<in> set required_fields"
  by (cases f) (simp_all add: required_fields_def)

lemma stored_record_members:
  assumes "stored_record input = Some r"
  shows "branchFromThought r = get input ''branchFromThought''"
    and "branchId r = get input ''branchId''"
    and "needsMoreThoughts r = get input ''needsMoreThoughts''"
  using assms
  by (auto simp: stored_record_def bump_totalThoughts_def validate_Inr split: sum.splits if_splits)

lemma valid_is_object:
  assumes "validateGameThoughtData input = Inr v"
  shows "\<exists>kvs. input = JObject kvs"
  using validate_Inr(3) [OF assms] by (cases input) simp_all

lemma get_update_other:
  "k \<noteq> n \<Longrightarrow> get (JObject (AList.update n x kvs)) k = get (JObject kvs) k"
  by (simp add: AList.update_conv')

lemma get_update_same:
  "get (JObject (AList.update n x kvs)) n = x"
  by (simp add: AList.update_conv')

lemma validate_retagged:
  assumes "validateGameThoughtData (JObject kvs) = Inr v"
  shows "validateGameThoughtData (JObject (AList.update ''needsMoreThoughts'' x kvs)) =
         Inr (v\<lparr>needsMoreThoughts := x\<rparr>)"
  using assms
  by (auto simp: validateGameThoughtData_def Let_def get_update_other get_update_same
      simp del: get.simps split: if_splits)

lemma bump_retagged:
  "bump_totalThoughts (v\<lparr>needsMoreThoughts := x\<rparr>) = (bump_totalThoughts v)\<lparr>needsMoreThoughts := x\<rparr>"
  by (simp add: bump_totalThoughts_def)

lemma format_retagged:
  "formatGameThought nts (r\<lparr>needsMoreThoughts := x\<rparr>) = formatGameThought nts r"
  by (simp add: formatGameThought_def cong: sum.case_cong)

lemma record_branch_retagged:
  assumes "branches s' = branches s"
  shows "fst (record_branch nts s' (r\<lparr>needsMoreThoughts := x\<rparr>)) = fst (record_branch nts s r)"
    and "map fst (branches (snd (record_branch nts s' (r\<lparr>needsMoreThoughts := x\<rparr>)))) =
         map fst (branches (snd (record_branch nts s r)))"
  using assms
  by (auto simp: record_branch_def AList.update_keys split: sum.splits option.splits)

lemma record_branch_index_only:
  assumes "branches s' = branches s"
  shows "fst (record_branch nts s' r) = fst (record_branch nts s r)"
    and "branches (snd (record_branch nts s' r)) = branches (snd (record_branch nts s r))"
  using assms
  by (auto simp: record_branch_def split: sum.splits option.splits)

lemma later_throw_retagged:
  "later_throw nts s (r\<lparr>needsMoreThoughts := x\<rparr>) = later_throw nts s r"
  by (simp add: later_throw_def format_retagged
      record_branch_retagged(1) [of s s, simplified] cong: option.case_cong)

lemma process_valid_fst:
  assumes "validateGameThoughtData input = Inr v"
  shows "fst (processGameThought nts s input) =
     (let r = bump_totalThoughts v
      in case later_throw nts s r of
           Some e \<Rightarrow> catch_block e
         | None \<Rightarrow>
             \<lparr>content = [\<lparr>entry_type = ''text'',
                 entry_text =
                   Summary (json_number (thoughtNumber r)) (json_number (totalThoughts r))
                     (nextThoughtNeeded r)
                     (own_keys_order (map fst (branches (snd (processGameThought nts s input)))))
                     (Suc (length (thoughtHistory s)))\<rparr>],
               isError = None\<rparr>)"
proof -
  let ?r = "bump_totalThoughts v"
  let ?s1 = "s\<lparr>thoughtHistory := thoughtHistory s @ [?r]\<rparr>"
  obtain e s2 where rb: "record_branch nts ?s1 ?r = (e, s2)" by (cases "record_branch nts ?s1 ?r")
  have b: "branches ?s1 = branches s" by simp
  have e: "fst (record_branch nts s ?r) = e"
    using record_branch_index_only(1) [OF b, of nts ?r] rb by simp
  have st: "snd (processGameThought nts s input) = s2"
    using process_valid_state [OF assms, of nts s] rb by simp
  have "thoughtHistory s2 = thoughtHistory ?s1"
    using record_branch_history [of nts ?s1 ?r] rb by simp
  then have len: "length (thoughtHistory s2) = Suc (length (thoughtHistory s))" by simp
  show ?thesis
    unfolding st
    using assms rb len e
    by (simp add: processGameThought_def try_block_def Let_def success_response_def
        later_throw_def split: option.splits sum.splits)
qed

lemma set_own_keys_order: "set (own_keys_order ks) = set ks"
  unfolding own_keys_order_def by auto

lemma to_string_declared:
  "typeof v \<in> {''undefined'', ''number'', ''string''} \<Longrightarrow> \<exists>t. to_string nts v = Inr t"
  by (cases v) auto

lemma format_declared:
  assumes "declared_types r"
  shows "\<exists>t. formatGameThought nts r = Inr t"
proof -
  from assms obtain a b c where
    "to_string nts (revisesThought r) = Inr a"
    "to_string nts (branchFromThought r) = Inr b"
    "to_string nts (branchId r) = Inr c"
    unfolding declared_types_def
    by (metis to_string_declared insert_iff)
  then show ?thesis by (simp add: formatGameThought_def)
qed

lemma later_throw_plain:
  assumes "\<not> truthy (isRevision r)" "\<not> truthy (branchFromThought r)"
  shows "later_throw nts s r = None"
  using assms by (simp add: later_throw_def record_branch_def formatGameThought_def)

lemma record_branch_new_key:
  assumes "b \<in> set (map fst (branches (snd (record_branch nts s r))))"
    and "b \<notin> set (map fst (branches s))"
  shows "names_branch nts b r" and "branch_seq (snd (record_branch nts s r)) b = [r]"
    and "fst (record_branch nts s r) = None"
proof -
  have changed: "map fst (branches (snd (record_branch nts s r))) \<noteq> map fst (branches s)"
  proof
    assume "map fst (branches (snd (record_branch nts s r))) = map fst (branches s)"
    with assms show False by (simp only:)
  qed
  have t: "truthy (branchFromThought r) \<and> truthy (branchId r)"
  proof (rule ccontr)
    assume "\<not> (truthy (branchFromThought r) \<and> truthy (branchId r))"
    then have "record_branch nts s r = (None, s)" by (auto simp: record_branch_def)
    with changed show False by simp
  qed
  obtain k where k: "to_property_key nts (branchId r) = Inr k"
  proof (cases "to_property_key nts (branchId r)")
    case (Inl e)
    with t have "record_branch nts s r = (Some e, s)" by (simp add: record_branch_def)
    with changed show ?thesis by simp
  next
    case (Inr k)
    then show ?thesis by (rule that)
  qed
  have none: "map_of (branches s) k = None"
  proof (cases "map_of (branches s) k")
    case (Some rs)
    then have "k \<in> set (map fst (branches s))"
      using map_of_eq_None_iff [of "branches s" k] by auto
    with Some t k changed show ?thesis
      by (simp add: record_branch_def AList.update_keys)
  qed simp
  have fresh: "k \<notin> set object_prototype_keys"
  proof
    assume "k \<in> set object_prototype_keys"
    with t k none have "record_branch nts s r = (Some (TypeError NotAFunction), s)"
      by (simp add: record_branch_def)
    with changed show False by simp
  qed
  have rb: "record_branch nts s r = (None, s\<lparr>branches := AList.update k [r] (branches s)\<rparr>)"
    using t k none fresh by (simp add: record_branch_def)
  have "k \<notin> set (map fst (branches s))"
    using none map_of_eq_None_iff [of "branches s" k] by auto
  then have keys: "map fst (branches (snd (record_branch nts s r))) = map fst (branches s) @ [k]"
    by (simp add: rb AList.update_keys)
  with assms have bk: "b = k" by simp
  show "names_branch nts b r"
    using t k bk by (simp add: names_branch_def)
  show "branch_seq (snd (record_branch nts s r)) b = [r]"
    by (simp add: rb bk branch_seq_def AList.update_conv')
  show "fst (record_branch nts s r) = None"
    by (simp add: rb)
qed

lemma rejected_member_response:
  assumes "input \<noteq> JUndefined" "input \<noteq> JNull" "missing_or_ill_typed input f"
  shows "\<exists>g. List.find (rejects input) required_fields = Some g
           \<and> processGameThought nts s input = (catch_block (Error (invalid_message g)), s)
           \<and> ((\<forall>h \<in> set (takeWhile (\<lambda>h. h \<noteq> f) required_fields).
                  \<not> rejects input h) \<longrightarrow> g = f)"
proof -
  have rf: "rejects input f" using assms by (rule ill_typed_rejects)
  have "List.find (rejects input) required_fields \<noteq> None"
    using rf required_fields_all [of f] by (auto simp: find_None_iff)
  then obtain g where g: "List.find (rejects input) required_fields = Some g" by blast
  with validate_find [OF assms(1,2)]
  have "validateGameThoughtData input = Inl (Error (invalid_message g))"
    by simp
  then have p: "processGameThought nts s input = (catch_block (Error (invalid_message g)), s)"
    by (rule process_invalid)
  have first: "(\<forall>h \<in> set (takeWhile (\<lambda>h. h \<noteq> f) required_fields). \<not> rejects input h)
      \<longrightarrow> g = f"
    using find_first [OF g rf required_fields_all] by blast
  from g p first show ?thesis by blast
qed

section \<open>Normalization of the total (C1)\<close>

text \<open>
  C1, as the code has it. For every input that passes validation the call appends
  exactly one record; its thoughtNumber is the caller's, its totalThoughts is the
  caller's thoughtNumber when that is greater than the caller's totalThoughts and the
  caller's totalThoughts when thoughtNumber is at most totalThoughts (one of the two
  always holds). When no later statement of the call throws, which is so for every
  thought without isRevision and branchFromThought, the response is the success payload
  with the two stored numbers, each as it is when finite and \<^verbatim>\<open>null\<close> when not. So
  every record in the history of a tracker that started empty has totalThoughts at
  least thoughtNumber.
\<close>

theorem normalization:
  assumes "validateGameThoughtData input = Inr v"
  shows "get input ''thoughtNumber'' = JNumber (thoughtNumber v)
       \<and> get input ''totalThoughts'' = JNumber (totalThoughts v)
       \<and> (js_gt (thoughtNumber v) (totalThoughts v) \<noteq> js_le (thoughtNumber v) (totalThoughts v))
       \<and> (\<exists>r. thoughtHistory (snd (processGameThought nts s input)) = thoughtHistory s @ [r]
              \<and> thoughtNumber r = thoughtNumber v
              \<and> (js_gt (thoughtNumber v) (totalThoughts v) \<longrightarrow> totalThoughts r = thoughtNumber v)
              \<and> (js_le (thoughtNumber v) (totalThoughts v) \<longrightarrow> totalThoughts r = totalThoughts v)
              \<and> js_ge (totalThoughts r) (thoughtNumber r)
              \<and> (later_throw nts s r = None \<longrightarrow>
                   fst (processGameThought nts s input) =
                     \<lparr>content = [\<lparr>entry_type = ''text'',
                         entry_text =
                           Summary (json_number (thoughtNumber r)) (json_number (totalThoughts r))
                             (nextThoughtNeeded v)
                             (own_keys_order
                                (map fst (branches (snd (processGameThought nts s input)))))
                             (Suc (length (thoughtHistory s)))\<rparr>],
                       isError = None\<rparr>)
              \<and> (\<not> truthy (get input ''isRevision'')
                   \<and> \<not> truthy (get input ''branchFromThought'') \<longrightarrow>
                   later_throw nts s r = None)
              \<and> (\<forall>x. totalThoughts r = Num x \<longrightarrow>
                   json_number (totalThoughts r) = JNumber (totalThoughts r)))
       \<and> (\<forall>r \<in> set (thoughtHistory (run nts new_server inputs)).
             js_ge (totalThoughts r) (thoughtNumber r))"
proof -
  note V = validate_Inr [OF assms]
  let ?r = "bump_totalThoughts v"
  have le: "js_le (thoughtNumber v) (totalThoughts v) \<longleftrightarrow> \<not> js_gt (thoughtNumber v) (totalThoughts v)"
    using V(6,9) by (rule js_le_iff_not_gt)
  have hist: "thoughtHistory (snd (processGameThought nts s input)) = thoughtHistory s @ [?r]"
    by (simp add: process_history stored_record_def assms)
  have num: "thoughtNumber ?r = thoughtNumber v"
    by (simp add: bump_totalThoughts_def)
  have gt: "js_gt (thoughtNumber v) (totalThoughts v) \<longrightarrow> totalThoughts ?r = thoughtNumber v"
    by (simp add: bump_totalThoughts_def)
  have ngt: "js_le (thoughtNumber v) (totalThoughts v) \<longrightarrow> totalThoughts ?r = totalThoughts v"
    by (simp add: bump_totalThoughts_def le)
  have ge: "js_ge (totalThoughts ?r) (thoughtNumber ?r)"
    using V(6,9) by (rule bump_ge)
  have nnd: "nextThoughtNeeded ?r = nextThoughtNeeded v"
    by (simp add: bump_totalThoughts_def)
  have resp: "later_throw nts s ?r = None \<longrightarrow>
      fst (processGameThought nts s input) =
        \<lparr>content = [\<lparr>entry_type = ''text'',
            entry_text =
              Summary (json_number (thoughtNumber ?r)) (json_number (totalThoughts ?r))
                (nextThoughtNeeded v)
                (own_keys_order (map fst (branches (snd (processGameThought nts s input)))))
                (Suc (length (thoughtHistory s)))\<rparr>],
          isError = None\<rparr>"
    using process_valid_fst [OF assms, of nts s] by (simp add: Let_def nnd)
  have opt: "isRevision ?r = get input ''isRevision''"
    "branchFromThought ?r = get input ''branchFromThought''"
    using V(12,14) by (simp_all add: bump_totalThoughts_def)
  have plain: "\<not> truthy (get input ''isRevision'')
      \<and> \<not> truthy (get input ''branchFromThought'') \<longrightarrow> later_throw nts s ?r = None"
    using later_throw_plain [of ?r nts s] by (simp add: opt)
  have fin: "\<forall>x. totalThoughts ?r = Num x \<longrightarrow>
      json_number (totalThoughts ?r) = JNumber (totalThoughts ?r)"
    by simp
  have inv: "\<forall>r \<in> set (thoughtHistory (run nts new_server inputs)).
      js_ge (totalThoughts r) (thoughtNumber r)"
    by (simp add: run_history_ge)
  have xor: "js_gt (thoughtNumber v) (totalThoughts v) \<noteq> js_le (thoughtNumber v) (totalThoughts v)"
    using le by blast
  show ?thesis
    by (intro conjI exI [of _ ?r] V(5) V(8) xor hist num gt ngt ge resp plain fin inv)
qed

theorem normalization_witness:
  "validateGameThoughtData scenario_b =
     Inr \<lparr>thought = ''Tune gravity'', thoughtNumber = Num 5, totalThoughts = Num 3,
          nextThoughtNeeded = True, isRevision = JUndefined, revisesThought = JUndefined,
          branchFromThought = JUndefined, branchId = JUndefined,
          needsMoreThoughts = JUndefined\<rparr>
   \<and> js_gt (Num 5) (Num 3)
   \<and> totalThoughts (last (thoughtHistory
         (snd (processGameThought decimal (run decimal new_server [scenario_a]) scenario_b))))
       = Num 5
   \<and> fst (processGameThought decimal (run decimal new_server [scenario_a]) scenario_b) =
       \<lparr>content = [\<lparr>entry_type = ''text'',
           entry_text = Summary (JNumber (Num 5)) (JNumber (Num 5)) True [] 2\<rparr>],
         isError = None\<rparr>"
proof -
  let ?v = "\<lparr>thought = ''Tune gravity'', thoughtNumber = Num 5, totalThoughts = Num 3,
          nextThoughtNeeded = True, isRevision = JUndefined, revisesThought = JUndefined,
          branchFromThought = JUndefined, branchId = JUndefined,
          needsMoreThoughts = JUndefined\<rparr>"
  let ?s = "run decimal new_server [scenario_a]"
  let ?p = "processGameThought decimal ?s scenario_b"
  have v: "validateGameThoughtData scenario_b = Inr ?v"
    by (simp add: validateGameThoughtData_def scenario_b_def thought_input_def)
  have gt: "js_gt (Num 5) (Num 3)" by simp
  have len: "length (thoughtHistory ?s) = 1"
    by (simp add: eval_defs scenario_a_def)
  have plain: "\<not> truthy (get scenario_b ''isRevision'')"
    "\<not> truthy (get scenario_b ''branchFromThought'')"
    by (simp_all add: scenario_b_def thought_input_def)
  have keys: "own_keys_order (map fst (branches (snd ?p))) = []"
    by (simp add: eval_defs scenario_a_def scenario_b_def)
  from normalization [OF v, of decimal ?s "[]"]
  obtain r where r: "thoughtHistory (snd ?p) = thoughtHistory ?s @ [r]"
      "thoughtNumber r = thoughtNumber ?v"
      "js_gt (thoughtNumber ?v) (totalThoughts ?v) \<longrightarrow> totalThoughts r = thoughtNumber ?v"
      "later_throw decimal ?s r = None \<longrightarrow>
         fst ?p =
           \<lparr>content = [\<lparr>entry_type = ''text'',
               entry_text =
                 Summary (json_number (thoughtNumber r)) (json_number (totalThoughts r))
                   (nextThoughtNeeded ?v) (own_keys_order (map fst (branches (snd ?p))))
                   (Suc (length (thoughtHistory ?s)))\<rparr>],
             isError = None\<rparr>"
      "\<not> truthy (get scenario_b ''isRevision'')
         \<and> \<not> truthy (get scenario_b ''branchFromThought'') \<longrightarrow>
         later_throw decimal ?s r = None"
    by (elim conjE exE) (rule that; assumption)
  from r(3) gt have tt: "totalThoughts r = Num 5" by simp
  from r(2) have tn: "thoughtNumber r = Num 5" by simp
  from r(5) plain have "later_throw decimal ?s r = None" by simp
  with r(4) have "fst ?p =
           \<lparr>content = [\<lparr>entry_type = ''text'',
               entry_text =
                 Summary (json_number (thoughtNumber r)) (json_number (totalThoughts r))
                   (nextThoughtNeeded ?v) (own_keys_order (map fst (branches (snd ?p))))
                   (Suc (length (thoughtHistory ?s)))\<rparr>],
             isError = None\<rparr>"
    by simp
  then have resp: "fst ?p =
       \<lparr>content = [\<lparr>entry_type = ''text'',
           entry_text = Summary (JNumber (Num 5)) (JNumber (Num 5)) True [] 2\<rparr>],
         isError = None\<rparr>"
    by (simp only: tt tn keys len) simp
  from r(1) tt have "totalThoughts (last (thoughtHistory (snd ?p))) = Num 5" by simp
  with v gt resp show ?thesis by (intro conjI)
qed

text \<open>
  C1 as stated fails at a thoughtNumber that is not finite: the stored totalThoughts is
  raised to it, and the response reports \<^verbatim>\<open>null\<close> for both numbers.
\<close>

theorem infinite_total_counterexample:
  "validateGameThoughtData infinite_call =
     Inr \<lparr>thought = ''Tune gravity'', thoughtNumber = PosInfinity, totalThoughts = Num 3,
          nextThoughtNeeded = True, isRevision = JUndefined, revisesThought = JUndefined,
          branchFromThought = JUndefined, branchId = JUndefined,
          needsMoreThoughts = JUndefined\<rparr>
   \<and> js_gt PosInfinity (Num 3)
   \<and> totalThoughts (last (thoughtHistory
         (snd (processGameThought decimal new_server infinite_call)))) = PosInfinity
   \<and> fst (processGameThought decimal new_server infinite_call) =
       \<lparr>content = [\<lparr>entry_type = ''text'',
           entry_text = Summary JNull JNull True [] 1\<rparr>],
         isError = None\<rparr>
   \<and> JNull \<noteq> JNumber PosInfinity"
  by (simp add: eval_defs infinite_call_def)

section \<open>A failed call that is stored (C2)\<close>

text \<open>
  C2 states that after N successful calls the history has N records, each success
  reporting the number of successes so far. The code at a valid call whose branchId is
  "constructor": the record is appended, the branch index answers with the inherited
  \<^verbatim>\<open>Object\<close> function, \<^verbatim>\<open>push\<close> on it throws, and the response is a failure; the
  first successful call after it reports thoughtHistoryLength 2.
\<close>

theorem failed_call_is_stored:
  "responses nts new_server [inherited_key_call, scenario_a] =
     [\<lparr>content = [\<lparr>entry_type = ''text'',
          entry_text = Failed (TypeError NotAFunction) ''failed''\<rparr>],
       isError = Some True\<rparr>,
      \<lparr>content = [\<lparr>entry_type = ''text'',
          entry_text = Summary (JNumber (Num 1)) (JNumber (Num 3)) True [] 2\<rparr>],
       isError = None\<rparr>]
   \<and> length (thoughtHistory (run nts new_server [inherited_key_call])) = 1
   \<and> branches (run nts new_server [inherited_key_call]) = []"
  by (simp add: eval_defs inherited_key_call_def scenario_a_def)

theorem failed_call_is_stored_witness:
  "map isError (responses decimal new_server [inherited_key_call, scenario_a]) = [Some True, None]
   \<and> map payload_of (responses decimal new_server [inherited_key_call, scenario_a]) =
       [Failed (TypeError NotAFunction) ''failed'',
        Summary (JNumber (Num 1)) (JNumber (Num 3)) True [] 2]"
  using failed_call_is_stored [of decimal] by (simp add: payload_of_def)

section \<open>Membership of a branch (C3)\<close>

text \<open>
  C3, as the code has it. The history of a tracker that started empty is the sequence
  of the records of its validated calls. For every branch identifier that is not the
  name of a property of \<^verbatim>\<open>Object.prototype\<close>, the sequence of the branch is exactly
  the subsequence of the history whose records name it: whose branchFromThought and
  branchId, stored as they were submitted, are both truthy, the branchId turning into
  that key. Every record of every branch sequence is in the history.
\<close>

theorem branch_membership:
  assumes "b \<notin> set object_prototype_keys"
  shows "thoughtHistory (run nts new_server inputs) = List.map_filter stored_record inputs
       \<and> branch_seq (run nts new_server inputs) b =
           filter (names_branch nts b) (thoughtHistory (run nts new_server inputs))
       \<and> (\<forall>input r. stored_record input = Some r \<longrightarrow>
             branchFromThought r = get input ''branchFromThought''
             \<and> branchId r = get input ''branchId'')
       \<and> (\<forall>b' rs. map_of (branches (run nts new_server inputs)) b' = Some rs \<longrightarrow>
             set rs \<subseteq> set (thoughtHistory (run nts new_server inputs)))"
proof -
  have h: "thoughtHistory (run nts new_server inputs) = List.map_filter stored_record inputs"
    by (simp add: run_history new_server_def)
  have "branch_seq (run nts new_server inputs) b =
      branch_seq new_server b @ filter (names_branch nts b) (List.map_filter stored_record inputs)"
    using assms by (rule run_branch_seq)
  with h have s: "branch_seq (run nts new_server inputs) b =
      filter (names_branch nts b) (thoughtHistory (run nts new_server inputs))"
    by (simp add: branch_seq_def new_server_def)
  have m: "\<forall>input r. stored_record input = Some r \<longrightarrow>
      branchFromThought r = get input ''branchFromThought'' \<and> branchId r = get input ''branchId''"
    by (simp add: stored_record_members)
  have "branches_in_history new_server"
    by (simp add: branches_in_history_def new_server_def)
  then have "branches_in_history (run nts new_server inputs)" by (rule run_in_history)
  then have i: "\<forall>b' rs. map_of (branches (run nts new_server inputs)) b' = Some rs \<longrightarrow>
      set rs \<subseteq> set (thoughtHistory (run nts new_server inputs))"
    by (simp add: branches_in_history_def)
  from h s m i show ?thesis by (intro conjI)
qed

theorem branch_membership_witness:
  "''controls-alt'' \<notin> set object_prototype_keys
   \<and> length (thoughtHistory (run decimal new_server [scenario_a, scenario_c])) = 2
   \<and> branch_seq (run decimal new_server [scenario_a, scenario_c]) ''controls-alt'' =
       [\<lparr>thought = ''Alt control scheme'', thoughtNumber = Num 2, totalThoughts = Num 5,
         nextThoughtNeeded = True, isRevision = JUndefined, revisesThought = JUndefined,
         branchFromThought = JNumber (Num 1), branchId = JString ''controls-alt'',
         needsMoreThoughts = JUndefined\<rparr>]"
proof -
  have k: "''controls-alt'' \<notin> set object_prototype_keys"
    by (simp add: object_prototype_keys_def)
  have sr: "List.map_filter stored_record [scenario_a, scenario_c] =
      [\<lparr>thought = ''Add jump mechanic'', thoughtNumber = Num 1, totalThoughts = Num 3,
         nextThoughtNeeded = True, isRevision = JUndefined, revisesThought = JUndefined,
         branchFromThought = JUndefined, branchId = JUndefined,
         needsMoreThoughts = JUndefined\<rparr>,
       \<lparr>thought = ''Alt control scheme'', thoughtNumber = Num 2, totalThoughts = Num 5,
         nextThoughtNeeded = True, isRevision = JUndefined, revisesThought = JUndefined,
         branchFromThought = JNumber (Num 1), branchId = JString ''controls-alt'',
         needsMoreThoughts = JUndefined\<rparr>]"
    by (simp add: List.map_filter_simps stored_record_def validateGameThoughtData_def
        bump_totalThoughts_def scenario_a_def scenario_c_def thought_input_def)
  from branch_membership [OF k, of decimal "[scenario_a, scenario_c]"] sr k show ?thesis
    by (simp add: names_branch_def to_property_key_def)
qed

text \<open>
  C3 as stated fails at branchFromThought 0: the member is set, the branch identifier is
  the one asked for, and the record joins no branch.
\<close>

theorem unset_by_zero_counterexample:
  "get zero_branch_call ''branchFromThought'' = JNumber (Num 0)
   \<and> get zero_branch_call ''branchId'' = JString ''alt''
   \<and> isError (fst (processGameThought decimal new_server zero_branch_call)) = None
   \<and> length (thoughtHistory (run decimal new_server [zero_branch_call])) = 1
   \<and> branch_seq (run decimal new_server [zero_branch_call]) ''alt'' = []"
  by (simp add: eval_defs zero_branch_call_def)

section \<open>The response when no arguments arrive (C4)\<close>

text \<open>
  C4 states that for every input in which a required member is missing or ill-typed the
  response is the failure payload with status "failed", \<^verbatim>\<open>isError: true\<close> and the
  exact message of the violated member, the server unchanged. The code at
  \<^verbatim>\<open>undefined\<close>, the input of a call without arguments, where every required member is
  missing: the read of \<^verbatim>\<open>data.thought\<close> throws before any check, and the response
  carries the engine's error, which is none of the four messages; the server is
  unchanged. At the empty object, where the same members are missing, the message is
  the one of thought.
\<close>

theorem no_arguments_response:
  "missing_or_ill_typed JUndefined Thought
   \<and> processGameThought nts s JUndefined =
       (\<lparr>content = [\<lparr>entry_type = ''text'',
            entry_text = Failed (TypeError ReadPropertyOfNullish) ''failed''\<rparr>],
         isError = Some True\<rparr>, s)
   \<and> TypeError ReadPropertyOfNullish
       \<notin> set (map (\<lambda>f. Error (invalid_message f)) required_fields)
   \<and> missing_or_ill_typed (JObject []) Thought
   \<and> processGameThought nts s (JObject []) =
       (\<lparr>content = [\<lparr>entry_type = ''text'',
            entry_text = Failed (Error ''Invalid thought: must be a string'') ''failed''\<rparr>],
         isError = Some True\<rparr>, s)"
  by (simp add: missing_or_ill_typed_def processGameThought_def try_block_def
      validateGameThoughtData_def catch_block_def required_fields_def)

theorem no_arguments_response_witness:
  "payload_of (fst (processGameThought decimal new_server JUndefined)) =
     Failed (TypeError ReadPropertyOfNullish) ''failed''
   \<and> snd (processGameThought decimal new_server JUndefined) = new_server
   \<and> payload_of (fst (processGameThought decimal new_server (JObject []))) =
     Failed (Error ''Invalid thought: must be a string'') ''failed''"
  using no_arguments_response [of decimal new_server] by (simp add: payload_of_def)

section \<open>The first call (C5)\<close>

text \<open>
  C5. On a fresh tracker the call with thought "Add jump mechanic", thoughtNumber 1,
  totalThoughts 3 and nextThoughtNeeded true returns the success payload with
  thoughtNumber 1, totalThoughts 3, nextThoughtNeeded true, no branches and
  thoughtHistoryLength 1, without the error marker, and stores that one record.
\<close>

theorem first_call:
  "processGameThought nts new_server scenario_a =
     (\<lparr>content =
         [\<lparr>entry_type = ''text'',
           entry_text = Summary (JNumber (Num 1)) (JNumber (Num 3)) True [] 1\<rparr>],
       isError = None\<rparr>,
      \<lparr>thoughtHistory =
         [\<lparr>thought = ''Add jump mechanic'', thoughtNumber = Num 1, totalThoughts = Num 3,
           nextThoughtNeeded = True, isRevision = JUndefined, revisesThought = JUndefined,
           branchFromThought = JUndefined, branchId = JUndefined,
           needsMoreThoughts = JUndefined\<rparr>],
       branches = []\<rparr>)"
  by (simp add: eval_defs scenario_a_def)

theorem first_call_witness:
  "payload_of (fst (processGameThought decimal new_server scenario_a))
     = Summary (JNumber (Num 1)) (JNumber (Num 3)) True [] 1
   \<and> isError (fst (processGameThought decimal new_server scenario_a)) = None
   \<and> length (thoughtHistory (snd (processGameThought decimal new_server scenario_a))) = 1"
  using first_call [of decimal] by (simp add: payload_of_def)

section \<open>Every call returns a response (C6)\<close>

text \<open>
  C6. For every input of any shape, \<^verbatim>\<open>processGameThought\<close> returns a response whose
  content is one text entry: either the failure payload with status "failed" and
  \<^verbatim>\<open>isError: true\<close>, or the success payload without the marker. Nothing thrown in
  the body passes the \<^verbatim>\<open>catch\<close>, and a validation failure becomes the failure
  payload with the validator's error, the server unchanged.
\<close>

theorem always_a_response:
  "\<exists>p e s'. processGameThought nts s input =
       (\<lparr>content = [\<lparr>entry_type = ''text'', entry_text = p\<rparr>], isError = e\<rparr>, s')
     \<and> ((\<exists>err. p = Failed err ''failed'' \<and> e = Some True)
        \<or> (\<exists>tn tt n bs len. p = Summary tn tt n bs len \<and> e = None))
     \<and> (\<forall>err. validateGameThoughtData input = Inl err \<longrightarrow>
           p = Failed err ''failed'' \<and> e = Some True \<and> s' = s)"
proof -
  let ?s' = "snd (processGameThought nts s input)"
  from process_shape [of nts s input] show ?thesis
  proof
    assume "\<exists>e. processGameThought nts s input = (catch_block e, ?s')"
    then obtain err where err: "processGameThought nts s input = (catch_block err, ?s')" ..
    have inv: "\<forall>e. validateGameThoughtData input = Inl e \<longrightarrow>
        Failed err ''failed'' = Failed e ''failed'' \<and> Some True = Some True \<and> ?s' = s"
    proof (intro allI impI)
      fix e assume "validateGameThoughtData input = Inl e"
      then have "processGameThought nts s input = (catch_block e, s)" by (rule process_invalid)
      with err show "Failed err ''failed'' = Failed e ''failed'' \<and> Some True = Some True \<and> ?s' = s"
        by (simp add: catch_block_def)
    qed
    show ?thesis
      apply (rule exI [of _ "Failed err ''failed''"])
      apply (rule exI [of _ "Some True"])
      apply (rule exI [of _ ?s'])
      using err inv by (simp add: catch_block_def)
  next
    assume "\<exists>v. validateGameThoughtData input = Inr v \<and> processGameThought nts s input =
         (success_response ?s' (bump_totalThoughts v), ?s')"
    then obtain v where v: "validateGameThoughtData input = Inr v"
      and r: "processGameThought nts s input = (success_response ?s' (bump_totalThoughts v), ?s')"
      by blast
    show ?thesis
      apply (rule exI [of _ "Summary (json_number (thoughtNumber (bump_totalThoughts v)))
          (json_number (totalThoughts (bump_totalThoughts v)))
          (nextThoughtNeeded (bump_totalThoughts v))
          (own_keys_order (map fst (branches ?s'))) (length (thoughtHistory ?s'))"])
      apply (rule exI [of _ None])
      apply (rule exI [of _ ?s'])
      using v r by (simp add: success_response_def)
  qed
qed

theorem always_a_response_witness:
  "processGameThought decimal new_server (JArray [JString ''Add jump mechanic'']) =
     (\<lparr>content = [\<lparr>entry_type = ''text'',
          entry_text = Failed (Error ''Invalid thought: must be a string'') ''failed''\<rparr>],
       isError = Some True\<rparr>, new_server)
   \<and> validateGameThoughtData (JArray [JString ''Add jump mechanic'']) =
       Inl (Error ''Invalid thought: must be a string'')"
proof -
  have v: "validateGameThoughtData (JArray [JString ''Add jump mechanic'']) =
       Inl (Error ''Invalid thought: must be a string'')"
    by (simp add: validateGameThoughtData_def)
  from always_a_response [of decimal new_server "JArray [JString ''Add jump mechanic'']"]
  obtain p e s' where
    "processGameThought decimal new_server (JArray [JString ''Add jump mechanic'']) =
       (\<lparr>content = [\<lparr>entry_type = ''text'', entry_text = p\<rparr>], isError = e\<rparr>, s')"
    "\<forall>err. validateGameThoughtData (JArray [JString ''Add jump mechanic'']) = Inl err \<longrightarrow>
           p = Failed err ''failed'' \<and> e = Some True \<and> s' = new_server"
    by blast
  with v show ?thesis by simp
qed

section \<open>The order of the checks when no arguments arrive (C7)\<close>

text \<open>
  C7 states that for every input that violates more than one rule the error message is
  the one of the first failing check in the order thought, thoughtNumber, totalThoughts,
  nextThoughtNeeded. The code at \<^verbatim>\<open>undefined\<close>, which violates all four rules:
  validation throws the engine's error of the read of \<^verbatim>\<open>data.thought\<close>, not the
  message of thought. At the number 5, which violates the same four rules, it throws
  the message of thought.
\<close>

theorem no_arguments_validation:
  "filter (missing_or_ill_typed JUndefined) required_fields = required_fields
   \<and> validateGameThoughtData JUndefined = Inl (TypeError ReadPropertyOfNullish)
   \<and> fst (processGameThought nts s JUndefined) =
       \<lparr>content = [\<lparr>entry_type = ''text'',
           entry_text = Failed (TypeError ReadPropertyOfNullish) ''failed''\<rparr>],
         isError = Some True\<rparr>
   \<and> TypeError ReadPropertyOfNullish \<noteq> Error (invalid_message Thought)
   \<and> filter (missing_or_ill_typed (JNumber (Num 5))) required_fields = required_fields
   \<and> validateGameThoughtData (JNumber (Num 5)) = Inl (Error (invalid_message Thought))"
  by (simp add: missing_or_ill_typed_def processGameThought_def try_block_def
      validateGameThoughtData_def catch_block_def required_fields_def)

theorem no_arguments_validation_witness:
  "validateGameThoughtData JUndefined \<noteq> Inl (Error ''Invalid thought: must be a string'')
   \<and> validateGameThoughtData (JNumber (Num 5)) = Inl (Error ''Invalid thought: must be a string'')"
  using no_arguments_validation [of decimal new_server] by simp

section \<open>The check of thoughtNumber (C8)\<close>

text \<open>
  C8, as the code has it. On an input whose thought passes its check, validation fails
  with "Invalid thoughtNumber: must be a number" if and only if thoughtNumber is absent,
  is not a number, or is one of the falsy numbers 0 and NaN; so every thoughtNumber that
  is present, numeric and neither 0 nor NaN passes this check.
\<close>

theorem thoughtNumber_check:
  assumes "\<not> rejects input Thought"
  shows "validateGameThoughtData input = Inl (Error ''Invalid thoughtNumber: must be a number'')
         \<longleftrightarrow> get input ''thoughtNumber'' = JUndefined
             \<or> typeof (get input ''thoughtNumber'') \<noteq> ''number''
             \<or> get input ''thoughtNumber'' = JNumber (Num 0)
             \<or> get input ''thoughtNumber'' = JNumber NaN"
proof -
  have r: "rejects input ThoughtNumber \<longleftrightarrow>
      get input ''thoughtNumber'' = JUndefined
      \<or> typeof (get input ''thoughtNumber'') \<noteq> ''number''
      \<or> get input ''thoughtNumber'' = JNumber (Num 0)
      \<or> get input ''thoughtNumber'' = JNumber NaN"
    by (cases "get input ''thoughtNumber''") auto
  have n: "input \<noteq> JUndefined" "input \<noteq> JNull"
    using assms by auto
  have "validateGameThoughtData input = Inl (Error ''Invalid thoughtNumber: must be a number'')
      \<longleftrightarrow> rejects input ThoughtNumber"
    using validate_find [OF n] assms
    by (auto simp: find_rejects split: if_splits)
  with r show ?thesis by simp
qed

theorem thoughtNumber_check_witness:
  "rejects (JObject [(''thought'', JString ''Tune gravity'')]) Thought = False
   \<and> get (JObject [(''thought'', JString ''Tune gravity'')]) ''thoughtNumber'' = JUndefined
   \<and> validateGameThoughtData (JObject [(''thought'', JString ''Tune gravity'')]) =
       Inl (Error ''Invalid thoughtNumber: must be a number'')"
proof -
  let ?i = "JObject [(''thought'', JString ''Tune gravity'')]"
  have a: "\<not> rejects ?i Thought" by simp
  have u: "get ?i ''thoughtNumber'' = JUndefined" by simp
  with thoughtNumber_check [OF a] have
    "validateGameThoughtData ?i = Inl (Error ''Invalid thoughtNumber: must be a number'')"
    by blast
  with a u show ?thesis by simp
qed

text \<open>
  C8 as stated fails at thoughtNumber 0: present and numeric, and rejected with the
  message.
\<close>

theorem zero_is_rejected_counterexample:
  "get zero_number_call ''thoughtNumber'' = JNumber (Num 0)
   \<and> typeof (get zero_number_call ''thoughtNumber'') = ''number''
   \<and> rejects zero_number_call Thought = False
   \<and> validateGameThoughtData zero_number_call =
       Inl (Error ''Invalid thoughtNumber: must be a number'')"
  by (simp add: zero_number_call_def thought_input_def validateGameThoughtData_def)

section \<open>The tag needsMoreThoughts (C9)\<close>

text \<open>
  C9, as the code has it. Every valid input is an object; the value of its
  needsMoreThoughts member is stored as it is on the appended record, neither validated
  nor interpreted; and it is not echoed: the response is the same whatever the value of
  the member.
\<close>

theorem tag_is_stored_not_echoed:
  assumes "validateGameThoughtData input = Inr v"
  shows "\<exists>kvs. input = JObject kvs
       \<and> needsMoreThoughts v = get input ''needsMoreThoughts''
       \<and> (\<exists>r. thoughtHistory (snd (processGameThought nts s input)) = thoughtHistory s @ [r]
              \<and> needsMoreThoughts r = get input ''needsMoreThoughts'')
       \<and> (\<forall>x. fst (processGameThought nts s (JObject (AList.update ''needsMoreThoughts'' x kvs)))
              = fst (processGameThought nts s input))"
proof -
  from valid_is_object [OF assms] obtain kvs where kvs: "input = JObject kvs" ..
  let ?r = "bump_totalThoughts v"
  have tag: "needsMoreThoughts v = get input ''needsMoreThoughts''"
    using assms by (rule validate_Inr)
  have hist: "thoughtHistory (snd (processGameThought nts s input)) = thoughtHistory s @ [?r]"
    by (simp add: process_history stored_record_def assms)
  have rtag: "needsMoreThoughts ?r = get input ''needsMoreThoughts''"
    using tag by (simp add: bump_totalThoughts_def)
  have same: "fst (processGameThought nts s (JObject (AList.update ''needsMoreThoughts'' x kvs)))
      = fst (processGameThought nts s input)" for x
  proof -
    let ?s1 = "s\<lparr>thoughtHistory := thoughtHistory s @ [?r]\<rparr>"
    let ?s1' = "s\<lparr>thoughtHistory := thoughtHistory s @ [?r\<lparr>needsMoreThoughts := x\<rparr>]\<rparr>"
    have v': "validateGameThoughtData (JObject (AList.update ''needsMoreThoughts'' x kvs)) =
        Inr (v\<lparr>needsMoreThoughts := x\<rparr>)"
      using assms unfolding kvs by (rule validate_retagged)
    have b: "branches ?s1' = branches ?s1" by simp
    note rb = record_branch_retagged [OF b, where nts = nts and r = ?r and x = x]
    have st': "snd (processGameThought nts s (JObject (AList.update ''needsMoreThoughts'' x kvs)))
        = snd (record_branch nts ?s1' (?r\<lparr>needsMoreThoughts := x\<rparr>))"
      using process_valid_state [OF v', of nts s] by (simp add: bump_retagged)
    have st: "snd (processGameThought nts s input) = snd (record_branch nts ?s1 ?r)"
      using process_valid_state [OF assms, of nts s] by simp
    have keys: "map fst (branches
          (snd (processGameThought nts s (JObject (AList.update ''needsMoreThoughts'' x kvs)))))
        = map fst (branches (snd (processGameThought nts s input)))"
      by (simp only: st st' rb(2))
    show ?thesis
      by (simp add: process_valid_fst [OF v'] process_valid_fst [OF assms] bump_retagged
          later_throw_retagged keys Let_def cong: option.case_cong)
  qed
  from kvs tag hist rtag same show ?thesis by blast
qed

theorem tag_is_stored_not_echoed_witness:
  "get (tagged_call True) ''needsMoreThoughts'' = JBool True
   \<and> needsMoreThoughts (last (thoughtHistory (snd (processGameThought decimal new_server
         (tagged_call True))))) = JBool True"
proof -
  let ?v = "\<lparr>thought = ''Add jump mechanic'', thoughtNumber = Num 1, totalThoughts = Num 3,
          nextThoughtNeeded = True, isRevision = JUndefined, revisesThought = JUndefined,
          branchFromThought = JUndefined, branchId = JUndefined,
          needsMoreThoughts = JBool True\<rparr>"
  have v: "validateGameThoughtData (tagged_call True) = Inr ?v"
    by (simp add: validateGameThoughtData_def tagged_call_def thought_input_def)
  have g: "get (tagged_call True) ''needsMoreThoughts'' = JBool True"
    by (simp add: tagged_call_def thought_input_def)
  from tag_is_stored_not_echoed [OF v, of decimal new_server]
  obtain r where "thoughtHistory (snd (processGameThought decimal new_server (tagged_call True)))
      = thoughtHistory new_server @ [r]"
    "needsMoreThoughts r = get (tagged_call True) ''needsMoreThoughts''"
    by blast
  with g show ?thesis by simp
qed

text \<open>
  C9 as stated fails at needsMoreThoughts true: the success payload has its five
  members and is the one returned for needsMoreThoughts false.
\<close>

theorem tag_is_dropped_counterexample:
  "get (tagged_call True) ''needsMoreThoughts'' = JBool True
   \<and> get (tagged_call False) ''needsMoreThoughts'' = JBool False
   \<and> fst (processGameThought decimal new_server (tagged_call True)) =
       \<lparr>content = [\<lparr>entry_type = ''text'',
            entry_text = Summary (JNumber (Num 1)) (JNumber (Num 3)) True [] 1\<rparr>],
         isError = None\<rparr>
   \<and> fst (processGameThought decimal new_server (tagged_call False)) =
       fst (processGameThought decimal new_server (tagged_call True))"
  by (simp add: eval_defs tagged_call_def)

section \<open>No listed branch is empty (C10)\<close>

text \<open>
  C10, as the code has it. In every state a tracker reaches from the empty one, every
  key of the branch index has a sequence with at least one record, and the branches
  array of a response lists exactly those keys. A key that a call adds to the index is
  created in the call that appends its first record: that record is the one the call
  appends to the history, it names the branch, and it is the whole sequence of the
  branch after the call. The call returns success, listing the branch, when the
  optional members it prints have their declared types; otherwise the formatter can
  throw after the branch was recorded, and the response is a failure.
\<close>

theorem branches_never_empty:
  "(\<forall>b \<in> set (map fst (branches (run nts new_server inputs))).
      branch_seq (run nts new_server inputs) b \<noteq> [])
   \<and> set (own_keys_order (map fst (branches (run nts new_server inputs))))
       = set (map fst (branches (run nts new_server inputs)))
   \<and> (\<forall>b. b \<in> set (map fst (branches (snd (processGameThought nts s input)))) \<longrightarrow>
          b \<notin> set (map fst (branches s)) \<longrightarrow>
          (\<exists>r. stored_record input = Some r
              \<and> names_branch nts b r
              \<and> thoughtHistory (snd (processGameThought nts s input)) = thoughtHistory s @ [r]
              \<and> branch_seq (snd (processGameThought nts s input)) b = [r]
              \<and> (declared_types r \<longrightarrow>
                   fst (processGameThought nts s input) =
                     \<lparr>content = [\<lparr>entry_type = ''text'',
                         entry_text =
                           Summary (json_number (thoughtNumber r)) (json_number (totalThoughts r))
                             (nextThoughtNeeded r)
                             (own_keys_order
                                (map fst (branches (snd (processGameThought nts s input)))))
                             (Suc (length (thoughtHistory s)))\<rparr>],
                       isError = None\<rparr>)))"
proof -
  let ?S = "run nts new_server inputs"
  have init: "nonempty_branches new_server"
    by (simp add: nonempty_branches_def new_server_def)
  then have ne: "nonempty_branches ?S" by (rule run_nonempty)
  have one: "\<forall>b \<in> set (map fst (branches ?S)). branch_seq ?S b \<noteq> []"
  proof
    fix b assume "b \<in> set (map fst (branches ?S))"
    then have "map_of (branches ?S) b \<noteq> None"
      by (simp add: map_of_eq_None_iff)
    then obtain rs where rs: "map_of (branches ?S) b = Some rs" by blast
    with ne have "rs \<noteq> []" by (simp add: nonempty_branches_def)
    with rs show "branch_seq ?S b \<noteq> []" by (simp add: branch_seq_def)
  qed
  have two: "set (own_keys_order (map fst (branches ?S))) = set (map fst (branches ?S))"
    by (rule set_own_keys_order)
  let ?s' = "snd (processGameThought nts s input)"
  have three: "\<forall>b. b \<in> set (map fst (branches ?s')) \<longrightarrow> b \<notin> set (map fst (branches s)) \<longrightarrow>
      (\<exists>r. stored_record input = Some r
          \<and> names_branch nts b r
          \<and> thoughtHistory ?s' = thoughtHistory s @ [r]
          \<and> branch_seq ?s' b = [r]
          \<and> (declared_types r \<longrightarrow>
               fst (processGameThought nts s input) =
                 \<lparr>content = [\<lparr>entry_type = ''text'',
                     entry_text =
                       Summary (json_number (thoughtNumber r)) (json_number (totalThoughts r))
                         (nextThoughtNeeded r) (own_keys_order (map fst (branches ?s')))
                         (Suc (length (thoughtHistory s)))\<rparr>],
                   isError = None\<rparr>))"
  proof (intro allI impI)
    fix b
    assume new: "b \<in> set (map fst (branches ?s'))" and old: "b \<notin> set (map fst (branches s))"
    show "\<exists>r. stored_record input = Some r
          \<and> names_branch nts b r
          \<and> thoughtHistory ?s' = thoughtHistory s @ [r]
          \<and> branch_seq ?s' b = [r]
          \<and> (declared_types r \<longrightarrow>
               fst (processGameThought nts s input) =
                 \<lparr>content = [\<lparr>entry_type = ''text'',
                     entry_text =
                       Summary (json_number (thoughtNumber r)) (json_number (totalThoughts r))
                         (nextThoughtNeeded r) (own_keys_order (map fst (branches ?s')))
                         (Suc (length (thoughtHistory s)))\<rparr>],
                   isError = None\<rparr>)"
    proof (cases "validateGameThoughtData input")
      case (Inl e)
      then have "?s' = s" by (simp add: process_invalid)
      with new old show ?thesis by simp
    next
      case (Inr v)
      let ?r = "bump_totalThoughts v"
      let ?s1 = "s\<lparr>thoughtHistory := thoughtHistory s @ [?r]\<rparr>"
      have st: "?s' = snd (record_branch nts ?s1 ?r)"
        using Inr by (rule process_valid_state)
      have old1: "b \<notin> set (map fst (branches ?s1))" using old by simp
      have new1: "b \<in> set (map fst (branches (snd (record_branch nts ?s1 ?r))))"
        using new st by simp
      note K = record_branch_new_key [OF new1 old1]
      have sr: "stored_record input = Some ?r" by (simp add: stored_record_def Inr)
      have hist: "thoughtHistory ?s' = thoughtHistory s @ [?r]"
        by (simp add: process_history sr)
      have seq: "branch_seq ?s' b = [?r]" using K(2) st by simp
      have b1: "branches ?s1 = branches s" by simp
      have rbs: "fst (record_branch nts s ?r) = None"
        using record_branch_index_only(1) [OF b1, of nts ?r] K(3) by simp
      have resp: "declared_types ?r \<longrightarrow>
          fst (processGameThought nts s input) =
            \<lparr>content = [\<lparr>entry_type = ''text'',
                entry_text =
                  Summary (json_number (thoughtNumber ?r)) (json_number (totalThoughts ?r))
                    (nextThoughtNeeded ?r) (own_keys_order (map fst (branches ?s')))
                    (Suc (length (thoughtHistory s)))\<rparr>],
              isError = None\<rparr>"
      proof
        assume "declared_types ?r"
        then obtain t where "formatGameThought nts ?r = Inr t"
          using format_declared by blast
        with rbs have "later_throw nts s ?r = None" by (simp add: later_throw_def)
        with process_valid_fst [OF Inr, of nts s] show "fst (processGameThought nts s input) =
            \<lparr>content = [\<lparr>entry_type = ''text'',
                entry_text =
                  Summary (json_number (thoughtNumber ?r)) (json_number (totalThoughts ?r))
                    (nextThoughtNeeded ?r) (own_keys_order (map fst (branches ?s')))
                    (Suc (length (thoughtHistory s)))\<rparr>],
              isError = None\<rparr>"
          by (simp add: Let_def)
      qed
      show ?thesis
        by (intro exI [of _ ?r] conjI sr K(1) hist seq resp)
    qed
  qed
  from one two three show ?thesis by (intro conjI)
qed

theorem branches_never_empty_witness:
  "map fst (branches (run decimal new_server [scenario_a])) = []
   \<and> map fst (branches (run decimal new_server [scenario_a, scenario_c])) = [''controls-alt'']
   \<and> branch_seq (run decimal new_server [scenario_a, scenario_c]) ''controls-alt'' \<noteq> []
   \<and> length (branch_seq (run decimal new_server [scenario_a, scenario_c]) ''controls-alt'') = 1
   \<and> fst (processGameThought decimal (run decimal new_server [scenario_a]) scenario_c) =
       \<lparr>content = [\<lparr>entry_type = ''text'',
           entry_text = Summary (JNumber (Num 2)) (JNumber (Num 5)) True [''controls-alt''] 2\<rparr>],
         isError = None\<rparr>"
proof -
  let ?s = "run decimal new_server [scenario_a]"
  let ?p = "processGameThought decimal ?s scenario_c"
  let ?S = "run decimal new_server [scenario_a, scenario_c]"
  let ?rc = "\<lparr>thought = ''Alt control scheme'', thoughtNumber = Num 2, totalThoughts = Num 5,
         nextThoughtNeeded = True, isRevision = JUndefined, revisesThought = JUndefined,
         branchFromThought = JNumber (Num 1), branchId = JString ''controls-alt'',
         needsMoreThoughts = JUndefined\<rparr>"
  have S: "?S = snd ?p" by simp
  have k0: "map fst (branches ?s) = []"
    by (simp add: eval_defs scenario_a_def)
  have k1: "map fst (branches (snd ?p)) = [''controls-alt'']"
    by (simp add: eval_defs scenario_a_def scenario_c_def)
  have len: "length (thoughtHistory ?s) = 1"
    by (simp add: eval_defs scenario_a_def)
  have sr: "stored_record scenario_c = Some ?rc"
    by (simp add: stored_record_def validateGameThoughtData_def bump_totalThoughts_def
        scenario_c_def thought_input_def)
  have dt: "declared_types ?rc" by (simp add: declared_types_def)
  have new: "''controls-alt'' \<in> set (map fst (branches (snd ?p)))"
    unfolding k1 by simp
  have old: "''controls-alt'' \<notin> set (map fst (branches ?s))"
    unfolding k0 by simp
  note T = branches_never_empty [of decimal "[scenario_a, scenario_c]" ?s scenario_c]
  from T new have ne: "branch_seq ?S ''controls-alt'' \<noteq> []"
    unfolding S by blast
  from T new old obtain r where r: "stored_record scenario_c = Some r"
      "branch_seq (snd ?p) ''controls-alt'' = [r]"
      "declared_types r \<longrightarrow>
         fst ?p =
           \<lparr>content = [\<lparr>entry_type = ''text'',
               entry_text =
                 Summary (json_number (thoughtNumber r)) (json_number (totalThoughts r))
                   (nextThoughtNeeded r) (own_keys_order (map fst (branches (snd ?p))))
                   (Suc (length (thoughtHistory ?s)))\<rparr>],
             isError = None\<rparr>"
    by blast
  from r(1) sr have rc: "r = ?rc" by simp
  from r(2) have l1: "length (branch_seq ?S ''controls-alt'') = 1"
    unfolding S by simp
  from r(3) dt rc have "fst ?p =
       \<lparr>content = [\<lparr>entry_type = ''text'',
           entry_text =
             Summary (json_number (thoughtNumber ?rc)) (json_number (totalThoughts ?rc))
               (nextThoughtNeeded ?rc) (own_keys_order (map fst (branches (snd ?p))))
               (Suc (length (thoughtHistory ?s)))\<rparr>],
         isError = None\<rparr>"
    by simp
  then have resp: "fst ?p =
       \<lparr>content = [\<lparr>entry_type = ''text'',
           entry_text = Summary (JNumber (Num 2)) (JNumber (Num 5)) True [''controls-alt''] 2\<rparr>],
         isError = None\<rparr>"
    by (simp only: k1 len) (simp add: own_keys_order_def array_index_def digit_value_def)
  have k1S: "map fst (branches ?S) = [''controls-alt'']"
    unfolding S by (rule k1)
  from k0 k1S ne l1 resp show ?thesis by (intro conjI)
qed

text \<open>
  C10 as stated fails at a branchFromThought that has no string form: the call creates
  the branch with its first record, and is not successful.
\<close>

theorem failed_call_creates_branch_counterexample:
  "validateGameThoughtData unprintable_branch_call =
     Inr \<lparr>thought = ''Alt control scheme'', thoughtNumber = Num 1, totalThoughts = Num 1,
          nextThoughtNeeded = True, isRevision = JUndefined, revisesThought = JUndefined,
          branchFromThought = JObject [(''toString'', JNumber (Num 1))],
          branchId = JString ''alt'', needsMoreThoughts = JUndefined\<rparr>
   \<and> fst (processGameThought decimal new_server unprintable_branch_call) =
       \<lparr>content = [\<lparr>entry_type = ''text'',
           entry_text = Failed (TypeError NoPrimitiveValue) ''failed''\<rparr>],
         isError = Some True\<rparr>
   \<and> map fst (branches new_server) = []
   \<and> map fst (branches (snd (processGameThought decimal new_server unprintable_branch_call)))
       = [''alt'']
   \<and> length (branch_seq (snd (processGameThought decimal new_server unprintable_branch_call))
        ''alt'') = 1"
  by (simp add: eval_defs unprintable_branch_call_def)

end
